theory Spec2Isabelle
  imports Complex_Main "HOL-Library.Log_Nat"
begin

section \<open>The CelebAMask dataset adapter (dataloader/dataset.py)\<close>

text \<open>
  A shallow embedding of \<^verbatim>\<open>CelebAMaskDataset\<close>. Python integers are \<open>int\<close>,
  Python lists are HOL lists, exceptions are values of \<open>py_error\<close> returned on the
  left of a sum. The libraries the class calls (glob, PIL, albumentations, torchvision)
  are parameters collected in the record \<open>env\<close>.
\<close>

subsection \<open>Errors\<close>

datatype py_error =
    GenericException       \<comment> \<open>\<^verbatim>\<open>raise Exception()\<close>\<close>
  | ZeroDivisionError      \<comment> \<open>\<^verbatim>\<open>idx % 0\<close>\<close>
  | IndexError             \<comment> \<open>list index out of range\<close>
  | AttributeError         \<comment> \<open>\<^verbatim>\<open>self.args.batch\<close> on an object without the field\<close>
  | LibraryError string    \<comment> \<open>whatever \<^verbatim>\<open>Image.open\<close> raises, e.g. FileNotFoundError\<close>

subsection \<open>The one-hot encoder \<^verbatim>\<open>_mask_labels\<close>\<close>

text \<open>
  A two-dimensional numpy array is a list of rows. \<open>is_array2 H W m\<close> says that \<open>m\<close>
  is a well-formed array of shape \<open>(H, W)\<close>. A three-dimensional array is a list of
  channels.
\<close>

type_synonym 'a array2 = "'a list list"
type_synonym 'a array3 = "'a list list list"

definition is_array2 :: "nat \<Rightarrow> nat \<Rightarrow> 'a array2 \<Rightarrow> bool" where
  "is_array2 H W m \<longleftrightarrow> length m = H \<and> list_all (\<lambda>row. length row = W) m"

definition is_array3 :: "nat \<Rightarrow> nat \<Rightarrow> nat \<Rightarrow> 'a array3 \<Rightarrow> bool" where
  "is_array3 C H W t \<longleftrightarrow> length t = C \<and> list_all (is_array2 H W) t"

definition shape0 :: "'a array2 \<Rightarrow> nat" where
  "shape0 m = length m"

definition shape1 :: "'a array2 \<Rightarrow> nat" where
  "shape1 m = (case m of [] \<Rightarrow> 0 | row # _ \<Rightarrow> length row)"

text \<open>\<^verbatim>\<open>np.zeros((c, h, w))\<close>\<close>

definition np_zeros :: "nat \<Rightarrow> nat \<Rightarrow> nat \<Rightarrow> real array3" where
  "np_zeros c h w = replicate c (replicate h (replicate w 0))"

text \<open>
  \<^verbatim>\<open>channel[mask_np == i] = v\<close>: the boolean-mask assignment of numpy, on a channel
  and a mask of the same shape.
\<close>

definition assign_where_eq :: "real array2 \<Rightarrow> int array2 \<Rightarrow> int \<Rightarrow> real \<Rightarrow> real array2" where
  "assign_where_eq channel mask_np i v =
     map2 (\<lambda>crow mrow. map2 (\<lambda>x p. if p = i then v else x) crow mrow) channel mask_np"

text \<open>
  \<^verbatim>\<open>self.color_map\<close>: class index to RGB triple. Only the number of its keys is used
  by the loader.
\<close>

definition color_map :: "(nat \<times> nat \<times> nat \<times> nat) list" where
  "color_map =
     [(0, 0, 0, 0), (1, 0, 0, 205), (2, 132, 112, 255), (3, 25, 25, 112),
      (4, 187, 255, 255), (5, 102, 205, 170), (6, 227, 207, 87), (7, 142, 142, 56)]"

text \<open>
  \<^verbatim>\<open>
  def _mask_labels(self, mask_np):
      label_size = len(self.color_map.keys())
      labels = np.zeros((label_size, mask_np.shape[0], mask_np.shape[1]))
      for i in range(label_size):
          labels[i][mask_np == i] = 1.0
      return labels
  \<close>
\<close>

definition mask_labels_step :: "int array2 \<Rightarrow> nat \<Rightarrow> real array3 \<Rightarrow> real array3" where
  "mask_labels_step mask_np i labels =
     labels[i := assign_where_eq (labels ! i) mask_np (int i) 1]"

definition mask_labels :: "int array2 \<Rightarrow> real array3" where
  "mask_labels mask_np =
     (let label_size = length (map fst color_map);
          labels = np_zeros label_size (shape0 mask_np) (shape1 mask_np)
      in fold (mask_labels_step mask_np) [0..<label_size] labels)"

text \<open>The label array of the specification's example.\<close>

definition example_label :: "int array2" where
  "example_label = [[0, 1], [2, 7]]"

subsection \<open>Rescaling the mask tensor\<close>

definition map3 :: "('a \<Rightarrow> 'b) \<Rightarrow> 'a array3 \<Rightarrow> 'b array3" where
  "map3 f t = map (map (map f)) t"

text \<open>
  \<^verbatim>\<open>mask_tensor = torch.tensor(labels, dtype=torch.float)\<close> followed by
  \<^verbatim>\<open>mask_tensor = (mask_tensor - 0.5) / 0.5\<close>. Tensor entries are modelled as reals.
  The entries that occur are \<open>0\<close> and \<open>1\<close> (lemma \<open>mask_labels_entries\<close> below), the
  intermediate values are \<open>-0.5\<close> and \<open>0.5\<close>, the results \<open>-1\<close> and \<open>1\<close>: all of them
  are binary floating-point numbers and every operation on them is exact in single and
  in double precision, so the real arithmetic is the arithmetic of the code.
\<close>

definition rescale :: "real array3 \<Rightarrow> real array3" where
  "rescale mask_tensor = map3 (\<lambda>x. (x - 0.5) / 0.5) mask_tensor"

text \<open>
  The inverse transform \<^verbatim>\<open>x * 0.5 + 0.5\<close> that the specification names for the
  round trip. The source has no such function; this definition follows the
  specification's words.
\<close>

definition spec_inverse_rescale :: "real array3 \<Rightarrow> real array3" where
  "spec_inverse_rescale t = map3 (\<lambda>x. x * 0.5 + 0.5) t"

subsection \<open>The split border \<^verbatim>\<open>int(len(train_val_idx_list) * 0.8)\<close>\<close>

text \<open>
  The product is a product of IEEE doubles. The literal \<^verbatim>\<open>0.8\<close> is the double
  \<open>3602879701896397 / 2 ^ 52\<close> (bit pattern \<^verbatim>\<open>0x3FE999999999999A\<close>), slightly above
  \<open>4/5\<close>. The list length is converted to a double and the exact product is rounded to
  53 significant bits, to nearest with ties to even; \<^verbatim>\<open>int\<close> then truncates. All
  of this is modelled on integers: a nonnegative double with integral significand \<open>P\<close>
  and exponent \<open>-52\<close> is the integer \<open>P\<close>.
\<close>

definition round_half_even :: "int \<Rightarrow> nat \<Rightarrow> int" where
  \<comment> \<open>\<open>P / 2 ^ s\<close> rounded to the nearest integer, ties to even\<close>
  "round_half_even P s =
     (let q = P div 2 ^ s; r = P mod 2 ^ s
      in if 2 * r > 2 ^ s \<or> (2 * r = 2 ^ s \<and> odd q) then q + 1 else q)"

definition round_53_bits :: "int \<Rightarrow> int" where
  \<comment> \<open>a nonnegative integer rounded to 53 significant bits\<close>
  "round_53_bits P =
     (if bitlen P \<le> 53 then P
      else let s = nat (bitlen P - 53) in round_half_even P s * 2 ^ s)"

definition double_0_8_significand :: int where
  "double_0_8_significand = 3602879701896397"

definition border_of :: "nat \<Rightarrow> nat" where
  \<comment> \<open>\<^verbatim>\<open>int(n * 0.8)\<close> for a list length \<open>n\<close>\<close>
  "border_of n =
     nat (round_53_bits (round_53_bits (int n) * double_0_8_significand) div 2 ^ 52)"

subsection \<open>Paths\<close>

text \<open>\<^verbatim>\<open>os.path.join(a, b)\<close> of posixpath, for two components.\<close>

definition path_join :: "string \<Rightarrow> string \<Rightarrow> string" where
  "path_join a b =
     (if b \<noteq> [] \<and> hd b = CHR ''/'' then b
      else if a = [] \<or> last a = CHR ''/'' then a @ b
      else a @ ''/'' @ b)"

subsection \<open>The libraries, the arguments object and the dataset object\<close>

text \<open>
  \<open>'img\<close> is a PIL image (or the numpy array of one), \<open>'ten\<close> an image tensor.
  \<^item> \<open>scan_ids E d\<close> is the list comprehension over \<^verbatim>\<open>glob(os.path.join(d, '**',
    '*.jpg'), recursive=True)\<close>: the identifiers found under directory \<open>d\<close>, in the
    order of the traversal.
  \<^item> \<open>open_rgb E path res\<close> is \<^verbatim>\<open>Image.open(path).convert('RGB').resize((res, res))\<close>;
    \<open>open_label E path res\<close> is \<^verbatim>\<open>np.array(Image.open(path).convert('L').resize((res,
    res), resample=0))\<close>. Both fail with the library's error when the file is missing.
  \<^item> \<open>aug_t E\<close> is the composed albumentations transform \<^verbatim>\<open>self.aug_t\<close> with its
    random draws fixed.
  \<^item> \<open>preprocess E\<close> is the static method \<^verbatim>\<open>preprocess\<close> (ToTensor, then Normalize).
\<close>

record ('img, 'ten) env =
  scan_ids :: "string \<Rightarrow> string list"
  open_rgb :: "string \<Rightarrow> nat \<Rightarrow> py_error + 'img"
  open_label :: "string \<Rightarrow> nat \<Rightarrow> py_error + int array2"
  aug_t :: "'img \<Rightarrow> int array2 \<Rightarrow> 'img \<times> int array2"
  preprocess :: "'img \<Rightarrow> 'ten"

text \<open>
  The \<^verbatim>\<open>args\<close> object: a field that the object lacks (\<^verbatim>\<open>hasattr\<close> is false) is
  \<open>None\<close>.
\<close>

record py_args =
  batch :: "int option"
  n_gpu :: "int option"

text \<open>
  The attributes of a constructed \<^verbatim>\<open>CelebAMaskDataset\<close>. \<open>latent_dir\<close> is assigned
  in labeled mode only and never read. The constructor's parameters \<^verbatim>\<open>limit_size\<close>
  and \<^verbatim>\<open>unlabel_limit_size\<close> are never used and are left out.
\<close>

record ('img, 'ten) dataset =
  args :: py_args
  is_label :: bool
  latent_dir :: "string option"
  data_root :: string
  img_dir :: string
  label_dir :: string
  idx_list :: "string list"
  phase :: string
  data_size :: int
  resolution :: nat
  aug :: bool
  unlabel_transform :: "('img \<Rightarrow> 'ten) option"

subsection \<open>The constructor \<^verbatim>\<open>__init__\<close>\<close>

text \<open>Lines 87 to 117: the assignments common to both modes.\<close>

definition init_fields ::
  "py_args \<Rightarrow> bool \<Rightarrow> string option \<Rightarrow> string \<Rightarrow> string \<Rightarrow> string list \<Rightarrow> string \<Rightarrow>
   bool \<Rightarrow> nat \<Rightarrow> ('img \<Rightarrow> 'ten) option \<Rightarrow> ('img, 'ten) dataset" where
  "init_fields a labeled ld droot idir ids ph ag res ut =
     \<lparr> args = a, is_label = labeled, latent_dir = ld, data_root = droot, img_dir = idir,
       label_dir = path_join droot ''label'', idx_list = ids, phase = ph,
       data_size = int (length ids), resolution = res, aug = ag,
       unlabel_transform = ut \<rparr>"

definition init ::
  "('img, 'ten) env \<Rightarrow> py_args \<Rightarrow> string \<Rightarrow> ('img \<Rightarrow> 'ten) option \<Rightarrow> string option \<Rightarrow>
   bool \<Rightarrow> string \<Rightarrow> bool \<Rightarrow> nat \<Rightarrow> py_error + ('img, 'ten) dataset" where
  "init E a dataroot ut ld labeled ph ag res =
     (if labeled then
        let droot = path_join dataroot ''label_data'';
            idir = path_join droot ''image'';
            train_val_idx_list = scan_ids E idir;
            border = border_of (length train_val_idx_list);
            train_idx_list = take border train_val_idx_list;
            val_idx_list = drop border train_val_idx_list
        in if ph = ''train'' then
             Inr (init_fields a labeled ld droot idir train_idx_list ph ag res ut)
           else if ph = ''val'' then
             Inr (init_fields a labeled ld droot idir val_idx_list ph ag res ut)
           else if ph = ''train-val'' then
             Inr (init_fields a labeled ld droot idir train_val_idx_list ph ag res ut)
           else Inl GenericException
      else
        let droot = path_join dataroot ''unlabel_data'';
            idir = path_join droot ''image''
        in Inr (init_fields a labeled None droot idir (scan_ids E idir) ph ag res ut))"

subsection \<open>\<^verbatim>\<open>__len__\<close>\<close>

definition len :: "('img, 'ten) dataset \<Rightarrow> py_error + int" where
  "len ds =
     (case n_gpu (args ds) of
        None \<Rightarrow> Inr (data_size ds)
      | Some g \<Rightarrow>
          (case batch (args ds) of
             None \<Rightarrow> Inl AttributeError
           | Some b \<Rightarrow> Inr (max (b * g) (data_size ds))))"

subsection \<open>\<^verbatim>\<open>__getitem__\<close>\<close>

text \<open>Lines 149 and 150: the index is wrapped when it reaches the stored size.\<close>

definition wrap_index :: "('img, 'ten) dataset \<Rightarrow> int \<Rightarrow> py_error + int" where
  "wrap_index ds idx =
     (if idx \<ge> data_size ds then
        (if data_size ds = 0 then Inl ZeroDivisionError else Inr (idx mod data_size ds))
      else Inr idx)"

text \<open>
  \<^verbatim>\<open>self.idx_list[idx]\<close>: positions \<open>0 .. len - 1\<close> read from the front,
  positions \<open>-len .. -1\<close> read from the back, anything else raises.
\<close>

definition list_index :: "'a list \<Rightarrow> int \<Rightarrow> py_error + 'a" where
  "list_index xs i =
     (if 0 \<le> i \<and> i < int (length xs) then Inr (xs ! nat i)
      else if i < 0 \<and> - int (length xs) \<le> i then Inr (xs ! nat (int (length xs) + i))
      else Inl IndexError)"

text \<open>
  The calls \<^verbatim>\<open>__getitem__\<close> makes to its collaborators, in order. The result of
  \<open>getitem\<close> carries this list, the returned dictionary or the exception, and, on
  success, the object after the call (the unlabeled path assigns
  \<^verbatim>\<open>self.unlabel_transform\<close>).
\<close>

datatype call =
    OpenImage string     \<comment> \<open>\<^verbatim>\<open>Image.open\<close> of the image file\<close>
  | OpenLabel string     \<comment> \<open>\<^verbatim>\<open>Image.open\<close> of the label file\<close>
  | Augment              \<comment> \<open>\<^verbatim>\<open>self.aug_t(image=..., mask=...)\<close>\<close>
  | Preprocess           \<comment> \<open>\<^verbatim>\<open>self.preprocess\<close>, the Normalizer\<close>
  | MaskLabels           \<comment> \<open>\<^verbatim>\<open>self._mask_labels\<close> and the rescale, the Encoder\<close>
  | UnlabelTransform     \<comment> \<open>a transform supplied by the caller\<close>

record 'ten sample =
  image :: 'ten
  mask :: "real array3 option"

type_synonym ('img, 'ten) outcome =
  "call list \<times> (py_error + 'ten sample \<times> ('img, 'ten) dataset)"

text \<open>Lines 155 to 181, once image and label are loaded.\<close>

definition labeled_item ::
  "('img, 'ten) env \<Rightarrow> ('img, 'ten) dataset \<Rightarrow> 'img \<Rightarrow> int array2 \<Rightarrow> call list \<times> 'ten sample"
  where
  "labeled_item E ds img_pil mask_pil =
     (if (phase ds = ''train'' \<or> phase ds = ''train-val'') \<and> aug ds then
        let augmented = aug_t E img_pil mask_pil;
            img_tensor = preprocess E (fst augmented);
            labels = mask_labels (snd augmented);
            mask_tensor = rescale labels
        in ([Augment, Preprocess, MaskLabels],
            \<lparr> image = img_tensor, mask = Some mask_tensor \<rparr>)
      else
        let img_tensor = preprocess E img_pil;
            labels = mask_labels mask_pil;
            mask_tensor = rescale labels
        in ([Preprocess, MaskLabels], \<lparr> image = img_tensor, mask = Some mask_tensor \<rparr>))"

text \<open>Lines 184 to 189.\<close>

definition unlabeled_item ::
  "('img, 'ten) env \<Rightarrow> ('img, 'ten) dataset \<Rightarrow> 'img \<Rightarrow>
   call list \<times> 'ten sample \<times> ('img, 'ten) dataset" where
  "unlabeled_item E ds img_pil =
     (case unlabel_transform ds of
        None \<Rightarrow>
          ([Preprocess], \<lparr> image = preprocess E img_pil, mask = None \<rparr>,
           ds\<lparr> unlabel_transform := Some (preprocess E) \<rparr>)
      | Some t \<Rightarrow> ([UnlabelTransform], \<lparr> image = t img_pil, mask = None \<rparr>, ds))"

definition getitem ::
  "('img, 'ten) env \<Rightarrow> ('img, 'ten) dataset \<Rightarrow> int \<Rightarrow> ('img, 'ten) outcome" where
  "getitem E ds idx0 =
     (case wrap_index ds idx0 of
        Inl e \<Rightarrow> ([], Inl e)
      | Inr idx \<Rightarrow>
     (case list_index (idx_list ds) idx of
        Inl e \<Rightarrow> ([], Inl e)
      | Inr img_idx \<Rightarrow>
     (let ipath = path_join (img_dir ds) (img_idx @ ''.jpg'') in
      case open_rgb E ipath (resolution ds) of
        Inl e \<Rightarrow> ([OpenImage ipath], Inl e)
      | Inr img_pil \<Rightarrow>
     (if is_label ds then
        (let lpath = path_join (label_dir ds) (img_idx @ ''.png'') in
         case open_label E lpath (resolution ds) of
           Inl e \<Rightarrow> ([OpenImage ipath, OpenLabel lpath], Inl e)
         | Inr mask_pil \<Rightarrow>
             (let (calls, item) = labeled_item E ds img_pil mask_pil
              in ([OpenImage ipath, OpenLabel lpath] @ calls, Inr (item, ds))))
      else
        (let (calls, item, ds') = unlabeled_item E ds img_pil
         in ([OpenImage ipath] @ calls, Inr (item, ds')))))))"

subsection \<open>Concrete inputs\<close>

text \<open>
  A small file system and stand-ins for the libraries, used to run the definitions:
  seven labeled identifiers, two unlabeled ones, an image is a number, every label file
  holds the example array, the augmentation flips the label horizontally.
\<close>

definition env0 :: "(nat, nat) env" where
  "env0 =
     \<lparr> scan_ids = (\<lambda>d. if d = ''data/label_data/image''
                        then [''a'', ''b'', ''c'', ''d'', ''e'', ''f'', ''g'']
                        else if d = ''data/unlabel_data/image'' then [''u'', ''v'']
                        else []),
       open_rgb = (\<lambda>path res. Inr (length path)),
       open_label = (\<lambda>path res. Inr example_label),
       aug_t = (\<lambda>img m. (Suc img, map rev m)),
       preprocess = (\<lambda>img. 2 * img) \<rparr>"


definition label_out_of_range :: "int array2" where
  "label_out_of_range = [[0, 9], [255, 7]]"

definition args0 :: py_args where
  "args0 = \<lparr> batch = None, n_gpu = None \<rparr>"

definition args1 :: py_args where
  "args1 = \<lparr> batch = Some 4, n_gpu = Some 2 \<rparr>"

text \<open>
  The objects the constructor builds on that file system: the labeled training split
  with augmentation, the unlabeled set, and a labeled set over an empty directory.
\<close>

definition labeled0 :: "(nat, nat) dataset" where
  "labeled0 =
     init_fields args0 True None ''data/label_data'' ''data/label_data/image''
       [''a'', ''b'', ''c'', ''d'', ''e''] ''train'' True 256 None"

definition replicated0 :: "(nat, nat) dataset" where
  "replicated0 =
     init_fields args1 True None ''data/label_data'' ''data/label_data/image''
       [''a'', ''b'', ''c'', ''d'', ''e''] ''train'' True 256 None"

definition unlabeled0 :: "(nat, nat) dataset" where
  "unlabeled0 =
     init_fields args0 False None ''data/unlabel_data'' ''data/unlabel_data/image''
       [''u'', ''v''] ''train'' True 256 None"

definition empty0 :: "(nat, nat) dataset" where
  "empty0 =
     init_fields args0 True None ''none/label_data'' ''none/label_data/image''
       [] ''train-val'' False 256 None"

section \<open>Properties\<close>

subsection \<open>The encoder\<close>

lemma label_size_8: "length color_map = 8"
  by (simp add: color_map_def)

lemma fold_step_length:
  "length (fold (mask_labels_step m) is labels) = length labels"
  by (induction "is" arbitrary: labels) (simp_all add: mask_labels_step_def)

lemma fold_step_untouched:
  "c \<notin> set is \<Longrightarrow> fold (mask_labels_step m) is labels ! c = labels ! c"
  by (induction "is" arbitrary: labels) (simp_all add: mask_labels_step_def)

lemma step_nth_other: "c \<noteq> i \<Longrightarrow> mask_labels_step m i labels ! c = labels ! c"
  by (simp add: mask_labels_step_def)

lemma step_nth_same:
  "i < length labels \<Longrightarrow>
   mask_labels_step m i labels ! i = assign_where_eq (labels ! i) m (int i) 1"
  by (simp add: mask_labels_step_def)

lemma fold_step_upt:
  "c < n \<Longrightarrow> n \<le> length labels \<Longrightarrow>
   fold (mask_labels_step m) [0..<n] labels ! c = assign_where_eq (labels ! c) m (int c) 1"
proof (induction n arbitrary: labels)
  case 0
  then show ?case by simp
next
  case (Suc n)
  let ?done = "fold (mask_labels_step m) [0..<n] labels"
  have unfold: "fold (mask_labels_step m) [0..<Suc n] labels = mask_labels_step m n ?done"
    by simp
  have len: "length ?done = length labels"
    by (rule fold_step_length)
  show ?case
  proof (cases "c = n")
    case True
    have "?done ! n = labels ! n"
      by (rule fold_step_untouched) simp
    moreover from Suc.prems len have "n < length ?done" by simp
    ultimately show ?thesis
      unfolding unfold True by (simp add: step_nth_same)
  next
    case False
    with Suc.prems have "c < n" "n \<le> length labels" by simp_all
    from Suc.IH [OF this] False show ?thesis
      unfolding unfold by (simp add: step_nth_other)
  qed
qed

lemma mask_labels_channel:
  "c < 8 \<Longrightarrow>
   mask_labels m ! c =
     assign_where_eq (replicate (shape0 m) (replicate (shape1 m) 0)) m (int c) 1"
  by (simp add: mask_labels_def Let_def label_size_8 np_zeros_def fold_step_upt
      del: upt_Suc)

lemma length_mask_labels: "length (mask_labels m) = 8"
  by (simp add: mask_labels_def Let_def label_size_8 np_zeros_def fold_step_length
      del: upt_Suc)

lemma shape1_array2: "is_array2 H W m \<Longrightarrow> 0 < H \<Longrightarrow> shape1 m = W"
  by (cases m) (simp_all add: is_array2_def shape1_def)

lemma mask_labels_pixel:
  assumes "is_array2 H W m" "c < 8" "y < H" "x < W"
  shows "mask_labels m ! c ! y ! x = (if m ! y ! x = int c then 1 else 0)"
proof -
  from assms have H: "length m = H" and row: "length (m ! y) = W"
    by (simp_all add: is_array2_def list_all_length)
  from assms have W: "shape1 m = W"
    by (auto intro: shape1_array2)
  from assms H row W show ?thesis
    by (simp add: mask_labels_channel assign_where_eq_def shape0_def)
qed

lemma mask_labels_shape:
  assumes "is_array2 H W m"
  shows "is_array3 8 H W (mask_labels m)"
proof -
  have "is_array2 H W (mask_labels m ! c)" if "c < 8" for c
  proof (cases "H = 0")
    case True
    with assms that show ?thesis
      by (simp add: mask_labels_channel assign_where_eq_def shape0_def is_array2_def)
  next
    case False
    with assms have "shape1 m = W" by (auto intro: shape1_array2)
    with assms that show ?thesis
      by (auto simp: mask_labels_channel assign_where_eq_def shape0_def is_array2_def
          list_all_length)
  qed
  then show ?thesis
    by (simp add: is_array3_def length_mask_labels list_all_length)
qed

lemma mask_labels_entries:
  assumes "ch \<in> set (mask_labels m)" "row \<in> set ch" "v \<in> set row"
  shows "v = 0 \<or> v = 1"
proof -
  from assms(1) obtain c where "c < 8" "ch = mask_labels m ! c"
    by (auto simp: in_set_conv_nth length_mask_labels)
  with assms(2,3) show ?thesis
    by (auto simp: mask_labels_channel assign_where_eq_def set_zip)
qed

lemma example_encoded:
  "mask_labels example_label =
     [[[1, 0], [0, 0]], [[0, 1], [0, 0]], [[0, 0], [1, 0]], [[0, 0], [0, 0]],
      [[0, 0], [0, 0]], [[0, 0], [0, 0]], [[0, 0], [0, 0]], [[0, 0], [0, 1]]]"
  by (simp add: mask_labels_def example_label_def color_map_def np_zeros_def shape0_def
      shape1_def mask_labels_step_def assign_where_eq_def upt_rec)

subsection \<open>The split border\<close>

lemma round_53_small: "P < 2 ^ 53 \<Longrightarrow> round_53_bits P = P"
  by (simp add: round_53_bits_def bitlen_le_iff_power)

lemma round_half_even_bounds:
  "P div 2 ^ s \<le> round_half_even P s \<and> round_half_even P s \<le> P div 2 ^ s + 1"
  by (simp add: round_half_even_def Let_def)

lemma round_53_bounds:
  assumes P: "P < 2 ^ 102" and K: "K * 2 ^ 52 \<le> P"
  shows "K * 2 ^ 52 \<le> round_53_bits P \<and> round_53_bits P \<le> P + 2 ^ 49"
proof (cases "bitlen P \<le> 53")
  case True
  with K show ?thesis by (simp add: round_53_bits_def)
next
  case False
  define s where "s = nat (bitlen P - 53)"
  define q where "q = P div 2 ^ s"
  from P have "bitlen P \<le> 102" by (simp add: bitlen_le_iff_power)
  with False have s: "s \<le> 49" by (simp add: s_def)
  from False have R: "round_53_bits P = round_half_even P s * 2 ^ s"
    by (simp add: round_53_bits_def s_def Let_def)
  have pow: "(2::int) ^ s \<le> 2 ^ 49"
    using s by (intro power_increasing) simp_all
  have split: "(2::int) ^ 52 = 2 ^ (52 - s) * 2 ^ s"
    using s by (simp flip: power_add)
  have pos: "(0::int) < 2 ^ s" by simp
  have "q * 2 ^ s = P - P mod 2 ^ s"
    by (simp add: q_def minus_mod_eq_div_mult)
  moreover have "0 \<le> P mod 2 ^ s" by simp
  ultimately have qle: "q * 2 ^ s \<le> P" by linarith
  have "K * 2 ^ (52 - s) * 2 ^ s \<le> P"
    using K unfolding split by (simp only: mult.assoc)
  then have "(K * 2 ^ (52 - s) * 2 ^ s) div 2 ^ s \<le> P div 2 ^ s"
    using pos by (intro zdiv_mono1)
  then have "K * 2 ^ (52 - s) \<le> q"
    by (simp add: q_def)
  then have "K * 2 ^ (52 - s) * 2 ^ s \<le> q * 2 ^ s"
    using pos by (intro mult_right_mono) simp_all
  then have low: "K * 2 ^ 52 \<le> q * 2 ^ s"
    unfolding split by (simp only: mult.assoc)
  from round_half_even_bounds [of P s]
  have "q \<le> round_half_even P s" and "round_half_even P s \<le> q + 1"
    by (simp_all add: q_def)
  then have "q * 2 ^ s \<le> round_half_even P s * 2 ^ s"
    and "round_half_even P s * 2 ^ s \<le> (q + 1) * 2 ^ s"
    using pos by (intro mult_right_mono; simp)+
  moreover have "(q + 1) * 2 ^ s = q * 2 ^ s + 2 ^ s"
    by (simp add: algebra_simps)
  ultimately show ?thesis
    using low qle pow R by linarith
qed

lemma floor_08: "nat \<lfloor>0.8 * real n\<rfloor> = (4 * n) div 5"
  by linarith

lemma border_of_eq:
  assumes "n < 2 ^ 50"
  shows "border_of n = (4 * n) div 5"
proof -
  define k where "k = int ((4 * n) div 5)"
  define P where "P = int n * double_0_8_significand"
  from assms have n: "int n < 2 ^ 50" by (simp flip: of_nat_less_iff)
  then have small: "round_53_bits (int n) = int n"
    by (intro round_53_small) simp
  have five: "5 * P = 4 * int n * 2 ^ 52 + int n"
    by (simp add: P_def double_0_8_significand_def)
  have k1: "5 * k \<le> 4 * int n" and k2: "4 * int n \<le> 5 * k + 4"
    unfolding k_def by linarith+
  from five k1 have lo: "k * 2 ^ 52 \<le> P" by simp
  from five k2 n have hi: "P + 2 ^ 49 < (k + 1) * 2 ^ 52" by simp
  from n five have "P < 2 ^ 102" by simp
  from round_53_bounds [OF this lo] hi
  have "k * 2 ^ 52 \<le> round_53_bits P" "round_53_bits P < (k + 1) * 2 ^ 52"
    by simp_all
  then have "round_53_bits P div 2 ^ 52 = k"
    by simp
  then show ?thesis
    by (simp add: border_of_def small P_def k_def)
qed

text \<open>
  The bound in \<open>border_of_eq\<close> is there for a reason: from lengths of about
  \<open>1.5 * 2 ^ 50\<close> on, the rounding of the double product can reach the next integer.
  No list of that length fits in memory.
\<close>

lemma border_of_beyond_bound:
  "border_of 1688883663013636 = 1351106930410909
   \<and> nat \<lfloor>0.8 * real (1688883663013636::nat)\<rfloor> = 1351106930410908"
proof -
  have "bitlen 6084844668336263879477270269492 \<le> 103"
    and "\<not> bitlen 6084844668336263879477270269492 \<le> 102"
    by (simp_all add: bitlen_le_iff_power)
  then have len: "bitlen 6084844668336263879477270269492 = 103"
    by linarith
  have small: "round_53_bits (int 1688883663013636) = 1688883663013636"
    by (simp add: round_53_bits_def bitlen_le_iff_power)
  have "border_of 1688883663013636 = 1351106930410909"
    unfolding border_of_def small
    by (simp add: round_53_bits_def round_half_even_def double_0_8_significand_def len)
  then show ?thesis by simp
qed

subsection \<open>The concrete objects are what the constructor builds\<close>

lemma init_labeled0:
  "init env0 args0 ''data'' None None True ''train'' True 256 = Inr labeled0"
  by (simp add: init_def Let_def env0_def path_join_def labeled0_def border_of_eq)

lemma init_replicated0:
  "init env0 args1 ''data'' None None True ''train'' True 256 = Inr replicated0"
  by (simp add: init_def Let_def env0_def path_join_def replicated0_def border_of_eq)

lemma init_unlabeled0:
  "init env0 args0 ''data'' None None False ''train'' True 256 = Inr unlabeled0"
  by (simp add: init_def Let_def env0_def path_join_def unlabeled0_def)

lemma init_empty0:
  "init env0 args0 ''none'' None None True ''train-val'' False 256 = Inr empty0"
  by (simp add: init_def Let_def env0_def path_join_def empty0_def border_of_eq)

subsection \<open>Indexing\<close>





lemma augment_only_if:
  "Augment \<in> set (fst (getitem E ds idx)) \<Longrightarrow>
   is_label ds \<and> (phase ds = ''train'' \<or> phase ds = ''train-val'') \<and> aug ds
   \<and> \<not> isl (snd (getitem E ds idx))"
  by (auto simp: getitem_def Let_def labeled_item_def unlabeled_item_def
      split: sum.splits if_splits option.splits prod.splits)

section \<open>The claims\<close>

text \<open>
  Claim C1. In labeled mode the training split is the first \<open>floor(0.8 * N)\<close>
  identifiers of the scanned list, in the order of the scan, the validation split is
  the rest, and the two concatenate to the full list, so their lengths add up to \<open>N\<close>.
  The border is computed by the code in double precision; the hypothesis bounds the
  length of the list by \<open>2 ^ 50\<close>, far beyond any list that fits in memory, and below
  that bound the truncated double product is exactly \<open>floor(0.8 * N)\<close>.
\<close>

theorem split_is_take_drop:
  fixes E :: "('img, 'ten) env"
  assumes "length (scan_ids E (path_join (path_join dataroot ''label_data'') ''image'')) < 2 ^ 50"
  shows
    "let droot = path_join dataroot ''label_data'';
         idir = path_join droot ''image'';
         full = scan_ids E idir;
         b = nat \<lfloor>0.8 * real (length full)\<rfloor>
     in init E a dataroot ut ld True ''train'' ag res
          = Inr (init_fields a True ld droot idir (take b full) ''train'' ag res ut)
      \<and> init E a dataroot ut ld True ''val'' ag res
          = Inr (init_fields a True ld droot idir (drop b full) ''val'' ag res ut)
      \<and> init E a dataroot ut ld True ''train-val'' ag res
          = Inr (init_fields a True ld droot idir full ''train-val'' ag res ut)
      \<and> take b full @ drop b full = full
      \<and> length (take b full) + length (drop b full) = length full"
proof -
  define full where "full = scan_ids E (path_join (path_join dataroot ''label_data'') ''image'')"
  define b where "b = nat \<lfloor>0.8 * real (length full)\<rfloor>"
  from assms have "border_of (length full) = b"
    unfolding b_def full_def by (simp only: border_of_eq floor_08)
  then have "init E a dataroot ut ld True ph ag res =
      (let droot = path_join dataroot ''label_data''; idir = path_join droot ''image''
       in if ph = ''train'' then Inr (init_fields a True ld droot idir (take b full) ph ag res ut)
          else if ph = ''val'' then Inr (init_fields a True ld droot idir (drop b full) ph ag res ut)
          else if ph = ''train-val'' then Inr (init_fields a True ld droot idir full ph ag res ut)
          else Inl GenericException)" for ph
    by (simp add: init_def Let_def full_def)
  then show ?thesis
    unfolding Let_def full_def [symmetric] b_def [symmetric] by simp
qed

theorem split_is_take_drop_witness:
  "length (scan_ids env0 (path_join (path_join ''data'' ''label_data'') ''image'')) < 2 ^ 50
   \<and> init env0 args0 ''data'' None None True ''train'' True 256 = Inr labeled0
   \<and> idx_list labeled0 = [''a'', ''b'', ''c'', ''d'', ''e'']
   \<and> init env0 args0 ''data'' None None True ''val'' True 256
       = Inr (init_fields args0 True None ''data/label_data'' ''data/label_data/image''
               [''f'', ''g''] ''val'' True 256 None)"
proof -
  have small:
    "length (scan_ids env0 (path_join (path_join ''data'' ''label_data'') ''image'')) < 2 ^ 50"
    by (simp add: env0_def path_join_def)
  from split_is_take_drop [OF small, of args0 None None True 256] small show ?thesis
    by (simp add: Let_def env0_def path_join_def labeled0_def init_fields_def)
qed

text \<open>
  Claim C2. For a label array of shape \<open>(H, W)\<close> whose values all lie in \<open>[0, 7]\<close>,
  \<^verbatim>\<open>_mask_labels\<close> returns an array of shape \<open>(8, H, W)\<close> in which, at every pixel,
  the channel whose index is the pixel's label holds \<open>1.0\<close> and every other channel
  holds \<open>0.0\<close>, so exactly one channel is hot. For the array \<open>[[0, 1], [2, 7]]\<close> channel
  0 is hot at \<open>(0, 0)\<close>, channel 1 at \<open>(0, 1)\<close>, channel 2 at \<open>(1, 0)\<close>, channel 7 at
  \<open>(1, 1)\<close>, and everything else is \<open>0\<close>.
\<close>

theorem encoder_one_hot:
  assumes "is_array2 H W m"
    and "list_all (list_all (\<lambda>p. 0 \<le> p \<and> p \<le> 7)) m"
  shows "is_array3 8 H W (mask_labels m)
     \<and> (\<forall>y<H. \<forall>x<W.
          (\<forall>c<8. mask_labels m ! c ! y ! x = (if int c = m ! y ! x then 1 else 0))
          \<and> nat (m ! y ! x) < 8
          \<and> (\<forall>c<8. mask_labels m ! c ! y ! x = 1 \<longleftrightarrow> c = nat (m ! y ! x)))
     \<and> mask_labels example_label =
         [[[1, 0], [0, 0]], [[0, 1], [0, 0]], [[0, 0], [1, 0]], [[0, 0], [0, 0]],
          [[0, 0], [0, 0]], [[0, 0], [0, 0]], [[0, 0], [0, 0]], [[0, 0], [0, 1]]]"
proof -
  have range: "0 \<le> m ! y ! x \<and> m ! y ! x \<le> 7" if "y < H" "x < W" for y x
    using assms that by (simp add: is_array2_def list_all_length)
  have px: "mask_labels m ! c ! y ! x = (if int c = m ! y ! x then 1 else 0)"
    if "y < H" "x < W" "c < 8" for y x c
    using mask_labels_pixel [OF assms(1) that(3) that(1) that(2)] by auto
  have hot: "nat (m ! y ! x) < 8" if "y < H" "x < W" for y x
    using range [OF that] by linarith
  have uniq: "mask_labels m ! c ! y ! x = 1 \<longleftrightarrow> c = nat (m ! y ! x)"
    if "y < H" "x < W" "c < 8" for y x c
    using range [OF that(1,2)] px [OF that] by auto
  from px hot uniq mask_labels_shape [OF assms(1)] example_encoded show ?thesis
    by simp
qed

theorem encoder_one_hot_witness:
  "is_array2 2 2 example_label
   \<and> list_all (list_all (\<lambda>p. 0 \<le> p \<and> p \<le> 7)) example_label
   \<and> is_array3 8 2 2 (mask_labels example_label)
   \<and> mask_labels example_label ! 7 ! 1 ! 1 = 1
   \<and> mask_labels example_label ! 0 ! 1 ! 1 = 0"
proof -
  have a: "is_array2 2 2 example_label"
    by (simp add: is_array2_def example_label_def)
  have b: "list_all (list_all (\<lambda>p. 0 \<le> p \<and> p \<le> 7)) example_label"
    by (simp add: example_label_def)
  from encoder_one_hot [OF a b] a b show ?thesis
    by (simp add: example_label_def is_array3_def is_array2_def)
qed

text \<open>
  Claim C3. Applying \<open>x * 0.5 + 0.5\<close> to the rescaled mask tensor
  \<open>(one_hot - 0.5) / 0.5\<close> gives back the one-hot tensor. The entries of the one-hot
  tensor are \<open>0\<close> and \<open>1\<close> and those of the rescaled tensor \<open>-1\<close> and \<open>1\<close>, for every
  label array, so both transforms are exact in floating point and the round trip is an
  equality, not an approximation.
\<close>

theorem rescale_round_trip:
  "spec_inverse_rescale (rescale (mask_labels m)) = mask_labels m
   \<and> list_all (list_all (list_all (\<lambda>v. v = 0 \<or> v = 1))) (mask_labels m)
   \<and> list_all (list_all (list_all (\<lambda>v. v = - 1 \<or> v = 1))) (rescale (mask_labels m))"
proof -
  have inv: "((x - 0.5) / 0.5) * 0.5 + 0.5 = x" for x :: real
    by (simp add: field_simps)
  have "spec_inverse_rescale (rescale t) = t" for t
    unfolding spec_inverse_rescale_def rescale_def map3_def map_map comp_def inv
    by simp
  moreover have e: "list_all (list_all (list_all (\<lambda>v. v = 0 \<or> v = 1))) (mask_labels m)"
    using mask_labels_entries by (auto simp: list_all_iff)
  moreover have "list_all (list_all (list_all (\<lambda>v. v = - 1 \<or> v = 1))) (rescale (mask_labels m))"
    using mask_labels_entries by (auto simp: list_all_iff rescale_def map3_def)
  ultimately show ?thesis by simp
qed

theorem rescale_round_trip_witness:
  "spec_inverse_rescale (rescale (mask_labels example_label)) = mask_labels example_label"
  using rescale_round_trip [of example_label] by simp

text \<open>
  Claim C8. A pixel whose label lies outside \<open>[0, 7]\<close> raises nothing and sets no
  channel: all eight channels are \<open>0.0\<close> there, the output keeps the shape
  \<open>(8, H, W)\<close>, and the pixels whose labels are in range are encoded as usual.
\<close>

theorem encoder_drops_out_of_range:
  assumes "is_array2 H W m" and "y < H" and "x < W"
    and "m ! y ! x < 0 \<or> 7 < m ! y ! x"
  shows "is_array3 8 H W (mask_labels m)
     \<and> (\<forall>c<8. mask_labels m ! c ! y ! x = 0)
     \<and> (\<forall>y'<H. \<forall>x'<W. 0 \<le> m ! y' ! x' \<and> m ! y' ! x' \<le> 7 \<longrightarrow>
          (\<forall>c<8. mask_labels m ! c ! y' ! x' = (if int c = m ! y' ! x' then 1 else 0)))"
proof -
  have px: "mask_labels m ! c ! y' ! x' = (if int c = m ! y' ! x' then 1 else 0)"
    if "y' < H" "x' < W" "c < 8" for y' x' c
    using mask_labels_pixel [OF assms(1) that(3) that(1) that(2)] by auto
  have "mask_labels m ! c ! y ! x = 0" if "c < 8" for c
    using px [OF assms(2,3) that] assms(4) that by auto
  with px mask_labels_shape [OF assms(1)] show ?thesis by simp
qed

theorem encoder_drops_out_of_range_witness:
  "is_array2 2 2 label_out_of_range \<and> (0::nat) < 2 \<and> (1::nat) < 2
   \<and> (label_out_of_range ! 0 ! 1 < 0 \<or> 7 < label_out_of_range ! 0 ! 1)
   \<and> map (\<lambda>c. mask_labels label_out_of_range ! c ! 0 ! 1) [0, 1, 2, 3, 4, 5, 6, 7]
       = [0, 0, 0, 0, 0, 0, 0, 0]
   \<and> mask_labels label_out_of_range ! 7 ! 1 ! 1 = 1"
proof -
  have a: "is_array2 2 2 label_out_of_range"
    by (simp add: is_array2_def label_out_of_range_def)
  have b: "label_out_of_range ! 0 ! 1 < 0 \<or> 7 < label_out_of_range ! 0 ! 1"
    by (simp add: label_out_of_range_def)
  have c: "(0::nat) < 2" "(1::nat) < 2" by simp_all
  from encoder_drops_out_of_range [OF a c b] a b show ?thesis
    by (simp add: label_out_of_range_def)
qed





text \<open>
  Claim C5. \<^verbatim>\<open>__len__\<close> reports the stored size when the arguments object has no
  \<^verbatim>\<open>n_gpu\<close> field. When \<^verbatim>\<open>batch\<close> and \<^verbatim>\<open>n_gpu\<close> are both present it reports the
  larger of their product and the stored size: the product when it exceeds the size.
\<close>

theorem len_reports:
  "(n_gpu (args ds) = None \<longrightarrow> len ds = Inr (data_size ds))
   \<and> (\<forall>b g. batch (args ds) = Some b \<and> n_gpu (args ds) = Some g \<longrightarrow>
         len ds = Inr (max (b * g) (data_size ds))
         \<and> (data_size ds < b * g \<longrightarrow> len ds = Inr (b * g))
         \<and> (b * g \<le> data_size ds \<longrightarrow> len ds = Inr (data_size ds)))"
  by (auto simp: len_def)

theorem len_reports_witness:
  "n_gpu (args labeled0) = None \<and> len labeled0 = Inr 5
   \<and> batch (args replicated0) = Some 4 \<and> n_gpu (args replicated0) = Some 2
   \<and> data_size replicated0 < 4 * 2 \<and> len replicated0 = Inr 8"
proof -
  have a: "n_gpu (args labeled0) = None" "data_size labeled0 = 5"
    by (simp_all add: labeled0_def init_fields_def args0_def)
  have b: "batch (args replicated0) = Some 4" "n_gpu (args replicated0) = Some 2"
    "data_size replicated0 = 5"
    by (simp_all add: replicated0_def init_fields_def args1_def)
  from len_reports [of labeled0] len_reports [of replicated0] a b show ?thesis
    by simp
qed

text \<open>
  Claim C6, as amended. For a sample whose index resolves and whose files load, the
  Augmentor is applied if and only if the mode is labeled, the phase is \<open>train\<close> or
  \<open>train-val\<close>, and augmentation is enabled. In every other labeled case the loaded
  image goes to the Normalizer and the loaded label to the Encoder, un-augmented. In
  unlabeled mode no label is loaded and the Encoder does not run: the image goes
  through the caller's transform, or the Normalizer when there is none, and the result
  has no mask. The lemma \<open>augment_only_if\<close> above gives the only-if direction without
  any assumption on loading.
\<close>

theorem augmentor_gate:
  assumes "wrap_index ds idx = Inr i"
    and "list_index (idx_list ds) i = Inr img_idx"
    and "ipath = path_join (img_dir ds) (img_idx @ ''.jpg'')"
    and "lpath = path_join (label_dir ds) (img_idx @ ''.png'')"
    and "open_rgb E ipath (resolution ds) = Inr img_pil"
    and "is_label ds \<longrightarrow> open_label E lpath (resolution ds) = Inr mask_pil"
  shows "(Augment \<in> set (fst (getitem E ds idx)) \<longleftrightarrow>
            is_label ds \<and> (phase ds = ''train'' \<or> phase ds = ''train-val'') \<and> aug ds)
     \<and> getitem E ds idx =
        (if is_label ds then
           if (phase ds = ''train'' \<or> phase ds = ''train-val'') \<and> aug ds then
             ([OpenImage ipath, OpenLabel lpath, Augment, Preprocess, MaskLabels],
              Inr (\<lparr> image = preprocess E (fst (aug_t E img_pil mask_pil)),
                     mask = Some (rescale (mask_labels (snd (aug_t E img_pil mask_pil)))) \<rparr>,
                   ds))
           else
             ([OpenImage ipath, OpenLabel lpath, Preprocess, MaskLabels],
              Inr (\<lparr> image = preprocess E img_pil,
                     mask = Some (rescale (mask_labels mask_pil)) \<rparr>, ds))
         else
           (case unlabel_transform ds of
              None \<Rightarrow>
                ([OpenImage ipath, Preprocess],
                 Inr (\<lparr> image = preprocess E img_pil, mask = None \<rparr>,
                      ds\<lparr> unlabel_transform := Some (preprocess E) \<rparr>))
            | Some t \<Rightarrow>
                ([OpenImage ipath, UnlabelTransform],
                 Inr (\<lparr> image = t img_pil, mask = None \<rparr>, ds))))"
  using assms
  by (simp add: getitem_def Let_def labeled_item_def unlabeled_item_def
      split: option.splits)

theorem augmentor_gate_witness:
  "wrap_index labeled0 0 = Inr 0
   \<and> list_index (idx_list labeled0) 0 = Inr ''a''
   \<and> open_rgb env0 ''data/label_data/image/a.jpg'' (resolution labeled0) = Inr 27
   \<and> open_label env0 ''data/label_data/label/a.png'' (resolution labeled0) = Inr example_label
   \<and> Augment \<in> set (fst (getitem env0 labeled0 0))
   \<and> fst (getitem env0 labeled0 0) =
       [OpenImage ''data/label_data/image/a.jpg'', OpenLabel ''data/label_data/label/a.png'',
        Augment, Preprocess, MaskLabels]"
proof -
  have a: "wrap_index labeled0 0 = Inr 0"
    by (simp add: wrap_index_def labeled0_def init_fields_def)
  have b: "list_index (idx_list labeled0) 0 = Inr ''a''"
    by (simp add: list_index_def labeled0_def init_fields_def)
  have c: "''data/label_data/image/a.jpg'' = path_join (img_dir labeled0) (''a'' @ ''.jpg'')"
    by (simp add: path_join_def labeled0_def init_fields_def)
  have d: "''data/label_data/label/a.png'' = path_join (label_dir labeled0) (''a'' @ ''.png'')"
    by (simp add: path_join_def labeled0_def init_fields_def)
  have e: "open_rgb env0 ''data/label_data/image/a.jpg'' (resolution labeled0) = Inr 27"
    by (simp add: env0_def)
  have f: "is_label labeled0 \<longrightarrow>
      open_label env0 ''data/label_data/label/a.png'' (resolution labeled0) = Inr example_label"
    by (simp add: env0_def)
  have g: "is_label labeled0" "phase labeled0 = ''train''" "aug labeled0"
    by (simp_all add: labeled0_def init_fields_def)
  from augmentor_gate [OF a b c d e f] a b e f g show ?thesis
    by simp
qed

text \<open>
  The claim as written sends every non-augmented case to the Encoder, on an image and a
  mask. On the unlabeled object the conditions for the Augmentor fail, and the call
  opens one file, runs the Normalizer, and returns no mask.
\<close>

theorem augmentor_claim_counterexample:
  "\<not> (is_label unlabeled0
       \<and> (phase unlabeled0 = ''train'' \<or> phase unlabeled0 = ''train-val'')
       \<and> aug unlabeled0)
   \<and> getitem env0 unlabeled0 0 =
       ([OpenImage ''data/unlabel_data/image/u.jpg'', Preprocess],
        Inr (\<lparr> image = 58, mask = None \<rparr>,
             unlabeled0\<lparr> unlabel_transform := Some (preprocess env0) \<rparr>))
   \<and> MaskLabels \<notin> set (fst (getitem env0 unlabeled0 0))"
  by (simp add: getitem_def unlabeled_item_def unlabeled0_def init_fields_def
      wrap_index_def list_index_def path_join_def env0_def)

text \<open>
  Claim C7, as amended. In labeled mode the constructor raises the generic exception
  if and only if the phase is none of \<open>train\<close>, \<open>val\<close>, \<open>train-val\<close>, and succeeds
  otherwise. In unlabeled mode it never raises.
\<close>

theorem phase_checked_in_labeled_mode:
  "(init E a dataroot ut ld True ph ag res = Inl GenericException
      \<longleftrightarrow> ph \<noteq> ''train'' \<and> ph \<noteq> ''val'' \<and> ph \<noteq> ''train-val'')
   \<and> (isl (init E a dataroot ut ld True ph ag res)
      \<longleftrightarrow> ph \<noteq> ''train'' \<and> ph \<noteq> ''val'' \<and> ph \<noteq> ''train-val'')
   \<and> \<not> isl (init E a dataroot ut ld False ph ag res)"
  by (simp add: init_def Let_def)

theorem phase_checked_in_labeled_mode_witness:
  "init env0 args0 ''data'' None None True ''bogus'' False 256 = Inl GenericException
   \<and> \<not> isl (init env0 args0 ''data'' None None True ''val'' False 256)"
  using phase_checked_in_labeled_mode [of env0 args0 "''data''" None None "''bogus''" False 256]
    phase_checked_in_labeled_mode [of env0 args0 "''data''" None None "''val''" False 256]
  by simp

text \<open>
  The claim as written makes no exception for the unlabeled mode, where an unrecognized
  phase is accepted.
\<close>

theorem phase_claim_counterexample:
  "''bogus'' \<noteq> ''train'' \<and> ''bogus'' \<noteq> ''val'' \<and> ''bogus'' \<noteq> ''train-val''
   \<and> init env0 args0 ''data'' None None False ''bogus'' True 256
       = Inr (unlabeled0\<lparr> phase := ''bogus'' \<rparr>)"
  by (simp add: init_def Let_def env0_def path_join_def unlabeled0_def init_fields_def)

text \<open>
  Claim C9. In unlabeled mode the constructor succeeds for every phase string and its
  identifier list is the full scan of \<^verbatim>\<open>unlabel_data/image\<close>.
\<close>

theorem unlabeled_ignores_phase:
  "init E a dataroot ut ld False ph ag res =
     Inr (init_fields a False None (path_join dataroot ''unlabel_data'')
            (path_join (path_join dataroot ''unlabel_data'') ''image'')
            (scan_ids E (path_join (path_join dataroot ''unlabel_data'') ''image''))
            ph ag res ut)
   \<and> idx_list (init_fields a False None (path_join dataroot ''unlabel_data'')
            (path_join (path_join dataroot ''unlabel_data'') ''image'')
            (scan_ids E (path_join (path_join dataroot ''unlabel_data'') ''image''))
            ph ag res ut)
      = scan_ids E (path_join (path_join dataroot ''unlabel_data'') ''image'')"
  by (simp add: init_def Let_def init_fields_def)

theorem unlabeled_ignores_phase_witness:
  "init env0 args0 ''data'' None None False ''bogus'' True 256
     = Inr (unlabeled0\<lparr> phase := ''bogus'' \<rparr>)
   \<and> init env0 args0 ''data'' None None False ''train'' True 256 = Inr unlabeled0
   \<and> idx_list unlabeled0 = [''u'', ''v'']"
  using unlabeled_ignores_phase [of env0 args0 "''data''" None None "''bogus''" True 256]
    unlabeled_ignores_phase [of env0 args0 "''data''" None None "''train''" True 256]
  by (simp add: env0_def path_join_def unlabeled0_def init_fields_def)

text \<open>
  Claim C10. On an object whose stored size is \<open>0\<close>, every call with a nonnegative
  index raises ZeroDivisionError at the wrapping step, before any file is opened; and
  an object constructed over an empty scan has stored size \<open>0\<close>.
\<close>

theorem empty_dataset_modulo_by_zero:
  "(data_size ds = 0 \<and> 0 \<le> idx \<longrightarrow> getitem E ds idx = ([], Inl ZeroDivisionError))
   \<and> (init E' a dataroot ut ld lab ph ag res = Inr ds' \<and> scan_ids E' (img_dir ds') = []
        \<longrightarrow> data_size ds' = 0)"
  by (auto simp: getitem_def wrap_index_def init_def Let_def init_fields_def
      split: if_splits)

theorem empty_dataset_modulo_by_zero_witness:
  "data_size empty0 = 0 \<and> (0::int) \<le> 3
   \<and> getitem env0 empty0 3 = ([], Inl ZeroDivisionError)
   \<and> init env0 args0 ''none'' None None True ''train-val'' False 256 = Inr empty0
   \<and> scan_ids env0 (img_dir empty0) = []"
proof -
  have a: "init env0 args0 ''none'' None None True ''train-val'' False 256 = Inr empty0"
    by (rule init_empty0)
  have b: "scan_ids env0 (img_dir empty0) = []"
    by (simp add: env0_def empty0_def init_fields_def)
  from empty_dataset_modulo_by_zero [of empty0 3 env0 env0 args0 "''none''" None None True
      "''train-val''" False 256 empty0] a b
  show ?thesis by simp
qed

end
